theory Spec2Isabelle
  imports Complex_Main
begin

section \<open>Hardware controller (src/control/hardware\_controller.py)\<close>

text \<open>
  The class \<open>HardwareController\<close> is embedded by explicit state passing: its attributes
  are the fields of the record \<open>controller\<close>, and every method takes the state and returns
  the state it leaves behind. Python floats are read as real numbers. A method that can
  raise returns an \<open>outcome\<close> next to the state, because Python keeps every attribute
  assignment made before the \<open>raise\<close>.

  The library \<open>lgpio\<close> is outside the repository. What it does at one call is the record
  \<open>hw\<close>: whether the import succeeded (\<open>GPIO_AVAILABLE\<close>), whether a PWM write returns or
  raises, and what a read of an input pin gives (\<open>None\<close> when the read raises). The last
  duty written to each pin is kept in the field \<open>pwm_out\<close>. Logging is left out.
\<close>

datatype error = ValueError | KeyError

datatype outcome = Ok | Raised error

record hw =
  gpio_available :: bool
  chip_open_ok :: bool
  claim_input_ok :: bool
  tx_pwm_ok :: "nat \<Rightarrow> real \<Rightarrow> bool"
  gpio_read :: "nat \<Rightarrow> int option"

record controller =
  pi_kp :: real
  pi_ki :: real
  pi_setpoint :: real
  max_pump_duty :: real
  estop_enabled :: bool
  pi_integral :: real
  pi_last_error :: real
  pump_mode :: string
  pump_duty :: real
  motor_states :: "string \<rightharpoonup> real"
  is_initialized :: bool
  estop_triggered :: bool
  pwm_out :: "nat \<rightharpoonup> real"

definition PIN_PERISTALTIC :: nat where "PIN_PERISTALTIC = 12"
definition PIN_AGITATOR :: nat where "PIN_AGITATOR = 13"
definition PIN_AIR_PUMP :: nat where "PIN_AIR_PUMP = 14"
definition PIN_FEED_PUMP :: nat where "PIN_FEED_PUMP = 15"
definition PIN_ESTOP :: nat where "PIN_ESTOP = 22"

definition output_pins :: "nat list" where
  "output_pins = [PIN_PERISTALTIC, PIN_AGITATOR, PIN_AIR_PUMP, PIN_FEED_PUMP]"

text \<open>
  \<open>_initialize_gpio\<close>: in simulation the controller counts as initialised. Otherwise the
  chip is opened, the four outputs are written with duty 0 and the E-Stop input is claimed;
  the first call that raises ends the \<open>try\<close> block with \<open>is_initialized = False\<close>, the
  writes made before it staying on the hardware.
\<close>

fun init_pins :: "hw \<Rightarrow> nat list \<Rightarrow> (nat \<rightharpoonup> real) \<Rightarrow> bool \<times> (nat \<rightharpoonup> real)" where
  "init_pins h [] out = (True, out)"
| "init_pins h (pin # pins) out =
     (if tx_pwm_ok h pin 0 then init_pins h pins (out(pin \<mapsto> 0)) else (False, out))"

definition initialize_gpio :: "hw \<Rightarrow> controller \<Rightarrow> bool \<times> controller" where
  "initialize_gpio h s =
     (if \<not> gpio_available h then (True, s\<lparr>is_initialized := True\<rparr>)
      else if \<not> chip_open_ok h then (False, s\<lparr>is_initialized := False\<rparr>)
      else
        (let (ok, out) = init_pins h output_pins (pwm_out s);
             s1 = s\<lparr>pwm_out := out\<rparr>
         in if \<not> ok then (False, s1\<lparr>is_initialized := False\<rparr>)
            else if estop_enabled s1 \<and> \<not> claim_input_ok h
              then (False, s1\<lparr>is_initialized := False\<rparr>)
            else (True, s1\<lparr>is_initialized := True\<rparr>)))"

definition init :: "hw \<Rightarrow> real \<Rightarrow> real \<Rightarrow> real \<Rightarrow> real \<Rightarrow> bool \<Rightarrow> controller" where
  "init h kp ki setpoint max_duty estop =
     snd (initialize_gpio h
       \<lparr>pi_kp = kp, pi_ki = ki, pi_setpoint = setpoint, max_pump_duty = max_duty,
        estop_enabled = estop, pi_integral = 0, pi_last_error = 0,
        pump_mode = ''manual'', pump_duty = 0,
        motor_states = [''agitator'' \<mapsto> 0, ''air'' \<mapsto> 0, ''feed'' \<mapsto> 0],
        is_initialized = False, estop_triggered = False, pwm_out = Map.empty\<rparr>)"

text \<open>The constructor's default arguments.\<close>

definition init_default :: "hw \<Rightarrow> controller" where
  "init_default h = init h (1/2) (5/100) 120 80 True"

text \<open>\<open>_set_pwm\<close>: clamps the duty to 0..100 and writes it; never raises.\<close>

definition set_pwm :: "hw \<Rightarrow> nat \<Rightarrow> real \<Rightarrow> controller \<Rightarrow> bool \<times> controller" where
  "set_pwm h pin duty_cycle s =
     (let duty_cycle = max 0 (min 100 duty_cycle)
      in if \<not> gpio_available h then (True, s)
         else if \<not> is_initialized s then (False, s)
         else if tx_pwm_ok h pin duty_cycle
           then (True, s\<lparr>pwm_out := (pwm_out s)(pin \<mapsto> duty_cycle)\<rparr>)
         else (False, s))"

text \<open>The loop \<open>for pin in [...]: self._set_pwm(pin, 0)\<close> of the two shutdown methods.\<close>

fun zero_pins :: "hw \<Rightarrow> nat list \<Rightarrow> controller \<Rightarrow> controller" where
  "zero_pins h [] s = s"
| "zero_pins h (pin # pins) s = zero_pins h pins (snd (set_pwm h pin 0 s))"

definition emergency_shutdown :: "hw \<Rightarrow> controller \<Rightarrow> controller" where
  "emergency_shutdown h s =
     (let s1 = zero_pins h output_pins s;
          s2 = s1\<lparr>pump_duty := 0\<rparr>;
          s3 = s2\<lparr>motor_states := (\<lambda>k. map_option (\<lambda>_. 0) (motor_states s2 k))\<rparr>
      in s3\<lparr>pi_integral := 0\<rparr>)"

definition check_estop :: "hw \<Rightarrow> controller \<Rightarrow> bool \<times> controller" where
  "check_estop h s =
     (if \<not> estop_enabled s \<or> \<not> gpio_available h \<or> \<not> is_initialized s then (False, s)
      else case gpio_read h PIN_ESTOP of
             None \<Rightarrow> (False, s)
           | Some estop_state \<Rightarrow>
               (let s1 = s\<lparr>estop_triggered := (estop_state = 0)\<rparr>
                in if estop_triggered s1 then (True, emergency_shutdown h s1)
                   else (False, s1)))"

definition set_pump_mode :: "string \<Rightarrow> controller \<Rightarrow> outcome \<times> controller" where
  "set_pump_mode mode s =
     (if mode \<noteq> ''auto'' \<and> mode \<noteq> ''manual'' then (Raised ValueError, s)
      else
        (let old_mode = pump_mode s;
             s1 = s\<lparr>pump_mode := mode\<rparr>
         in if mode = ''auto'' \<and> old_mode \<noteq> ''auto''
            then (Ok, s1\<lparr>pi_integral := 0, pi_last_error := 0\<rparr>)
            else (Ok, s1)))"

text \<open>\<open>_pi_update\<close>: one step of the PI controller, returning the duty.\<close>

definition pi_update :: "real \<Rightarrow> controller \<Rightarrow> real \<times> controller" where
  "pi_update measured_value s =
     (let err = pi_setpoint s - measured_value;
          s1 = s\<lparr>pi_integral := pi_integral s + err\<rparr>;
          s2 = s1\<lparr>pi_integral := max (- 50) (min 50 (pi_integral s1))\<rparr>;
          p_term = pi_kp s2 * err;
          i_term = pi_ki s2 * pi_integral s2;
          output = p_term + i_term;
          duty = max 0 (min (max_pump_duty s2) output)
      in (duty, s2\<lparr>pi_last_error := err\<rparr>))"

definition set_pump_speed :: "hw \<Rightarrow> real \<Rightarrow> controller \<Rightarrow> outcome \<times> controller" where
  "set_pump_speed h v s =
     (if estop_triggered s then (Ok, s)
      else if pump_mode s = ''manual'' then
        (if \<not> (0 \<le> v \<and> v \<le> 100) then (Raised ValueError, s)
         else
           (let duty = min v (max_pump_duty s);
                s1 = s\<lparr>pump_duty := duty\<rparr>
            in (Ok, snd (set_pwm h PIN_PERISTALTIC duty s1))))
      else
        (let (duty, s1) = pi_update v s;
             s2 = s1\<lparr>pump_duty := duty\<rparr>
         in (Ok, snd (set_pwm h PIN_PERISTALTIC duty s2))))"

text \<open>
  \<open>set_pi_parameters\<close>: the three optional arguments are checked and stored one after
  the other, in the order kp, ki, setpoint.
\<close>

definition set_pi_parameters ::
  "real option \<Rightarrow> real option \<Rightarrow> real option \<Rightarrow> controller \<Rightarrow> outcome \<times> controller" where
  "set_pi_parameters kp ki setpoint s =
     (case (case kp of None \<Rightarrow> (Ok, s)
                     | Some k \<Rightarrow> if k < 0 then (Raised ValueError, s)
                                 else (Ok, s\<lparr>pi_kp := k\<rparr>)) of
        (Raised e, s1) \<Rightarrow> (Raised e, s1)
      | (Ok, s1) \<Rightarrow>
          (case (case ki of None \<Rightarrow> (Ok, s1)
                          | Some k \<Rightarrow> if k < 0 then (Raised ValueError, s1)
                                      else (Ok, s1\<lparr>pi_ki := k\<rparr>)) of
             (Raised e, s2) \<Rightarrow> (Raised e, s2)
           | (Ok, s2) \<Rightarrow>
               (case setpoint of None \<Rightarrow> (Ok, s2)
                               | Some p \<Rightarrow> if p < 0 then (Raised ValueError, s2)
                                           else (Ok, s2\<lparr>pi_setpoint := p, pi_integral := 0\<rparr>))))"

definition pin_map :: "string \<rightharpoonup> nat" where
  "pin_map = [''agitator'' \<mapsto> PIN_AGITATOR, ''air'' \<mapsto> PIN_AIR_PUMP, ''feed'' \<mapsto> PIN_FEED_PUMP]"

definition manual_motor_control ::
  "hw \<Rightarrow> string \<Rightarrow> real \<Rightarrow> controller \<Rightarrow> outcome \<times> controller" where
  "manual_motor_control h motor_id pwm_value s =
     (if estop_triggered s then (Ok, s)
      else if motor_states s motor_id = None then (Raised ValueError, s)
      else if \<not> (0 \<le> pwm_value \<and> pwm_value \<le> 100) then (Raised ValueError, s)
      else case pin_map motor_id of
             None \<Rightarrow> (Raised KeyError, s)
           | Some pin \<Rightarrow>
               (let s1 = s\<lparr>motor_states := (motor_states s)(motor_id \<mapsto> pwm_value)\<rparr>
                in (Ok, snd (set_pwm h pin pwm_value s1))))"

text \<open>The dictionary returned by \<open>get_status\<close>, one field for each key.\<close>

record pi_status =
  status_kp :: real
  status_ki :: real
  status_setpoint :: real
  status_integral :: real
  status_last_error :: real

record status =
  status_pump_mode :: string
  status_pump_duty :: real
  status_motors :: "string \<rightharpoonup> real"
  status_pi_controller :: pi_status
  status_estop_triggered :: bool
  status_initialized :: bool

definition get_status :: "controller \<Rightarrow> status" where
  "get_status s =
     \<lparr>status_pump_mode = pump_mode s, status_pump_duty = pump_duty s,
      status_motors = motor_states s,
      status_pi_controller =
        \<lparr>status_kp = pi_kp s, status_ki = pi_ki s, status_setpoint = pi_setpoint s,
         status_integral = pi_integral s, status_last_error = pi_last_error s\<rparr>,
      status_estop_triggered = estop_triggered s, status_initialized = is_initialized s\<rparr>"

definition stop_all :: "hw \<Rightarrow> controller \<Rightarrow> controller" where
  "stop_all h s =
     (let s1 = zero_pins h output_pins s;
          s2 = s1\<lparr>pump_duty := 0\<rparr>
      in s2\<lparr>motor_states := (\<lambda>k. map_option (\<lambda>_. 0) (motor_states s2 k))\<rparr>)"

text \<open>
  A caller's history is a list of method calls, each with what the hardware does during
  it. \<open>run\<close> performs them in order; a call that raises leaves the state it had reached.
\<close>

datatype call =
    Set_pump_mode string
  | Set_pump_speed real
  | Set_pi_parameters "real option" "real option" "real option"
  | Manual_motor_control string real
  | Check_estop
  | Stop_all

fun do_call :: "hw \<Rightarrow> call \<Rightarrow> controller \<Rightarrow> controller" where
  "do_call h (Set_pump_mode m) s = snd (set_pump_mode m s)"
| "do_call h (Set_pump_speed v) s = snd (set_pump_speed h v s)"
| "do_call h (Set_pi_parameters a b c) s = snd (set_pi_parameters a b c s)"
| "do_call h (Manual_motor_control m v) s = snd (manual_motor_control h m v s)"
| "do_call h Check_estop s = snd (check_estop h s)"
| "do_call h Stop_all s = stop_all h s"

fun run :: "(hw \<times> call) list \<Rightarrow> controller \<Rightarrow> controller" where
  "run [] s = s"
| "run ((h, c) # cs) s = run cs (do_call h c s)"

definition integral_ok :: "controller \<Rightarrow> bool" where
  "integral_ok s \<longleftrightarrow> - 50 \<le> pi_integral s \<and> pi_integral s \<le> 50"

definition has_motors :: "controller \<Rightarrow> bool" where
  "has_motors s \<longleftrightarrow> dom (motor_states s) = {''agitator'', ''air'', ''feed''}"

section \<open>Vision processor (src/vision/vision\_processor.py)\<close>

text \<open>
  Of the class \<open>VisionProcessor\<close> the record \<open>vision\<close> keeps the parameters the analysis
  reads and the two bounded histories. OpenCV is outside the repository: a contour is
  what \<open>cv.contourArea\<close> and \<open>cv.arcLength\<close> return for it, and the segmentation
  inside the \<open>try\<close> block of \<open>process_bubbles\<close> (from \<open>cvtColor\<close> to \<open>findContours\<close>) is
  a parameter that gives the contours and the mask, or \<open>None\<close> when one of its calls
  raises. A frame is its shape; a mask is its pixel values.
\<close>

record contour =
  contour_area :: real
  arc_length :: real

record frame =
  shape :: "nat list"

type_synonym mask = "nat list"

record vision =
  min_bubble_area :: real
  circularity_threshold :: real
  history_size :: nat
  bubble_count_history :: "int list"
  avg_size_history :: "real list"

record bubbles =
  count :: int
  diameters :: "real list"
  areas :: "real list"
  avg_diameter :: real

record bubble_data = bubbles +
  mask :: "mask option"

record froth_metrics =
  bubble_count :: int
  avg_bubble_size :: real
  size_std_dev :: real
  froth_coverage :: real
  froth_stability :: real

text \<open>The constructor with its default arguments for the parameters kept here.\<close>

definition vision_init :: "real \<Rightarrow> real \<Rightarrow> nat \<Rightarrow> vision" where
  "vision_init min_area circ hist =
     \<lparr>min_bubble_area = min_area, circularity_threshold = circ, history_size = hist,
      bubble_count_history = [], avg_size_history = []\<rparr>"

definition vision_default :: vision where
  "vision_default = vision_init 80 (45/100) 10"

text \<open>
  \<open>np.mean\<close> and \<open>np.std\<close> (the population standard deviation) of a list. The source
  calls them on non-empty lists only.
\<close>

definition np_mean :: "real list \<Rightarrow> real" where
  "np_mean xs = sum_list xs / real (length xs)"

definition np_std :: "real list \<Rightarrow> real" where
  "np_std xs = sqrt (np_mean (map (\<lambda>x. \<bar>x - np_mean xs\<bar>\<^sup>2) xs))"

definition np_clip :: "real \<Rightarrow> real \<Rightarrow> real \<Rightarrow> real" where
  "np_clip x lo hi = min (max x lo) hi"

text \<open>\<open>frame.size\<close>: the number of elements of the array.\<close>

definition frame_size :: "frame \<Rightarrow> nat" where
  "frame_size f = prod_list (shape f)"

text \<open>\<open>deque.append\<close> on a deque made with \<open>maxlen\<close>.\<close>

definition deque_append :: "nat \<Rightarrow> 'a list \<Rightarrow> 'a \<Rightarrow> 'a list" where
  "deque_append maxlen xs x =
     (if maxlen = 0 then []
      else if length xs \<ge> maxlen then tl xs @ [x]
      else xs @ [x])"

text \<open>The loop of \<open>_analyze_contours\<close>, with the two lists it appends to.\<close>

fun analyze_loop :: "vision \<Rightarrow> contour list \<Rightarrow> real list \<Rightarrow> real list \<Rightarrow> real list \<times> real list" where
  "analyze_loop v [] ds as = (ds, as)"
| "analyze_loop v (cnt # cnts) ds as =
     (let area = contour_area cnt
      in if area < min_bubble_area v then analyze_loop v cnts ds as
         else
           (let peri = arc_length cnt
            in if peri \<le> 0 then analyze_loop v cnts ds as
               else
                 (let circularity = 4 * pi * area / (peri * peri)
                  in if circularity < circularity_threshold v then analyze_loop v cnts ds as
                     else
                       (let diameter = 2 * sqrt (area / pi)
                        in analyze_loop v cnts (ds @ [diameter]) (as @ [area])))))"

definition analyze_contours :: "vision \<Rightarrow> contour list \<Rightarrow> bubbles" where
  "analyze_contours v contours =
     (let (ds, as) = analyze_loop v contours [] []
      in \<lparr>count = int (length ds), diameters = ds, areas = as,
          avg_diameter = (if ds \<noteq> [] then np_mean ds else 0)\<rparr>)"

definition empty_result :: bubble_data where
  "empty_result = \<lparr>count = 0, diameters = [], areas = [], avg_diameter = 0, mask = None\<rparr>"

definition process_bubbles ::
  "vision \<Rightarrow> (frame \<Rightarrow> (contour list \<times> mask) option) \<Rightarrow> frame option \<Rightarrow> bubble_data" where
  "process_bubbles v segment fr =
     (case fr of
        None \<Rightarrow> empty_result
      | Some f \<Rightarrow>
          if frame_size f = 0 then empty_result
          else
            (case segment f of
               None \<Rightarrow> empty_result
             | Some (contours, m) \<Rightarrow>
                 (let b = analyze_contours v contours
                  in \<lparr>count = count b, diameters = diameters b, areas = areas b,
                      avg_diameter = avg_diameter b, mask = Some m\<rparr>)))"

text \<open>
  The three terms of \<open>_calculate_stability\<close>, under the names of its local variables, and
  the score itself. The count history is the one already extended by \<open>analyze_froth\<close>.
\<close>

definition size_uniformity :: "real \<Rightarrow> real \<Rightarrow> real" where
  "size_uniformity avg_diam size_std =
     (if avg_diam > 0 then 1 / (1 + size_std / avg_diam) else 0)"

definition count_consistency :: "int list \<Rightarrow> real" where
  "count_consistency history =
     (if length history \<ge> 3 then
        (let count_std = np_std (map real_of_int history);
             count_mean = np_mean (map real_of_int history)
         in if count_mean > 0 then 1 / (1 + count_std / count_mean) else 0)
      else 1 / 2)"

definition density_score :: "int \<Rightarrow> real" where
  "density_score c =
     (if c < 50 then real_of_int c / 50
      else if c > 200 then max (1 / 2) (1 - (real_of_int c - 200) / 200)
      else 1)"

definition calculate_stability :: "vision \<Rightarrow> real \<Rightarrow> real \<Rightarrow> int \<Rightarrow> real" where
  "calculate_stability v avg_diam size_std c =
     (let stability = 4 / 10 * size_uniformity avg_diam size_std
                    + 4 / 10 * count_consistency (bubble_count_history v)
                    + 2 / 10 * density_score c
      in np_clip stability 0 1)"

definition zero_metrics :: froth_metrics where
  "zero_metrics = \<lparr>bubble_count = 0, avg_bubble_size = 0, size_std_dev = 0,
                   froth_coverage = 0, froth_stability = 0\<rparr>"

text \<open>
  The coverage ratio of \<open>analyze_froth\<close>; \<open>None\<close> when the frame is absent or has fewer
  than two dimensions, where \<open>frame.shape[0] * frame.shape[1]\<close> raises.
\<close>

definition coverage_ratio :: "frame option \<Rightarrow> mask option \<Rightarrow> real option" where
  "coverage_ratio fr m =
     (case m of
        None \<Rightarrow> Some 0
      | Some px \<Rightarrow>
          (case fr of
             None \<Rightarrow> None
           | Some f \<Rightarrow>
               (case shape f of
                  h # w # _ \<Rightarrow>
                    (let total_pixels = h * w;
                         bubble_pixels = length (filter (\<lambda>p. p \<noteq> 0) px)
                     in Some (if total_pixels > 0 then real bubble_pixels / real total_pixels
                              else 0))
                | _ \<Rightarrow> None)))"

text \<open>
  \<open>analyze_froth\<close>: an exception in the \<open>try\<close> block gives the zero metrics, the histories
  as they were.
\<close>

definition analyze_froth ::
  "vision \<Rightarrow> frame option \<Rightarrow> bubble_data \<Rightarrow> froth_metrics \<times> vision" where
  "analyze_froth v fr bd =
     (case coverage_ratio fr (mask bd) of
        None \<Rightarrow> (zero_metrics, v)
      | Some coverage \<Rightarrow>
          (let avg_size = (if areas bd \<noteq> [] then np_mean (areas bd) else 0);
               size_std = (if diameters bd \<noteq> [] then np_std (diameters bd) else 0);
               v1 = v\<lparr>bubble_count_history :=
                        deque_append (history_size v) (bubble_count_history v) (count bd)\<rparr>;
               v2 = v1\<lparr>avg_size_history :=
                        deque_append (history_size v1) (avg_size_history v1) avg_size\<rparr>;
               stability = calculate_stability v2 (avg_diameter bd) size_std (count bd)
           in (\<lparr>bubble_count = count bd, avg_bubble_size = avg_size, size_std_dev = size_std,
                froth_coverage = coverage, froth_stability = stability\<rparr>, v2)))"

section \<open>Concrete hardware and controller states\<close>

definition hw_sim :: hw where
  "hw_sim = \<lparr>gpio_available = False, chip_open_ok = False, claim_input_ok = False,
             tx_pwm_ok = (\<lambda>_ _. False), gpio_read = (\<lambda>_. None)\<rparr>"

definition hw_released :: hw where
  "hw_released = \<lparr>gpio_available = True, chip_open_ok = True, claim_input_ok = True,
             tx_pwm_ok = (\<lambda>_ _. True), gpio_read = (\<lambda>_. Some 1)\<rparr>"

definition hw_pressed :: hw where
  "hw_pressed = \<lparr>gpio_available = True, chip_open_ok = True, claim_input_ok = True,
             tx_pwm_ok = (\<lambda>_ _. True), gpio_read = (\<lambda>_. Some 0)\<rparr>"

definition busy :: controller where
  "busy = run [(hw_released, Set_pump_speed 30), (hw_released, Manual_motor_control ''air'' 75),
               (hw_released, Set_pump_mode ''auto''), (hw_released, Set_pump_speed 100)]
              (init_default hw_released)"

definition stopped :: controller where
  "stopped = snd (check_estop hw_pressed busy)"

definition windup :: "(hw \<times> call) list" where
  "windup = [(hw_sim, Set_pump_mode ''auto''), (hw_sim, Set_pump_speed 100),
             (hw_sim, Set_pump_speed 0), (hw_sim, Set_pump_speed 0)]"

text \<open>
  Two square contours, 10 by 10 and 20 by 20 pixels, as the segmentation of a 480 by 640
  frame (500 mask pixels set), a segmentation that finds nothing, and a frame of no pixels.
\<close>

definition two_squares :: "contour list" where
  "two_squares = [\<lparr>contour_area = 100, arc_length = 40\<rparr>, \<lparr>contour_area = 400, arc_length = 80\<rparr>]"

definition frame_vga :: frame where
  "frame_vga = \<lparr>shape = [480, 640, 3]\<rparr>"

definition frame_empty :: frame where
  "frame_empty = \<lparr>shape = [0, 640, 3]\<rparr>"

definition segment_squares :: "frame \<Rightarrow> (contour list \<times> mask) option" where
  "segment_squares f = Some (two_squares, replicate 500 255 @ replicate 306700 0)"

definition segment_nothing :: "frame \<Rightarrow> (contour list \<times> mask) option" where
  "segment_nothing f = Some ([], replicate 307200 0)"

definition squares_data :: bubble_data where
  "squares_data = process_bubbles vision_default segment_squares (Some frame_vga)"

definition squares_metrics :: froth_metrics where
  "squares_metrics = fst (analyze_froth vision_default (Some frame_vga) squares_data)"

text \<open>Four frames in a row: two without bubbles, then two with the two squares.\<close>

definition see :: "(frame \<Rightarrow> (contour list \<times> mask) option) \<Rightarrow> vision \<Rightarrow> vision" where
  "see segment v = snd (analyze_froth v (Some frame_vga) (process_bubbles v segment (Some frame_vga)))"

definition four_frames :: vision where
  "four_frames = see segment_squares (see segment_squares (see segment_nothing
                   (see segment_nothing vision_default)))"

section \<open>Auxiliary facts about the hardware controller\<close>

lemma set_pwm_frame:
  "snd (set_pwm h pin d s) = s\<lparr>pwm_out := pwm_out (snd (set_pwm h pin d s))\<rparr>"
  by (simp add: set_pwm_def Let_def)

lemma zero_pins_frame:
  "zero_pins h pins s = s\<lparr>pwm_out := pwm_out (zero_pins h pins s)\<rparr>"
proof (induction pins arbitrary: s)
  case Nil
  show ?case by simp
next
  case (Cons pin pins)
  obtain out where o: "snd (set_pwm h pin 0 s) = s\<lparr>pwm_out := out\<rparr>"
    using set_pwm_frame by blast
  have "zero_pins h (pin # pins) s = zero_pins h pins (s\<lparr>pwm_out := out\<rparr>)"
    by (simp add: o)
  also have "\<dots> = (s\<lparr>pwm_out := out\<rparr>)\<lparr>pwm_out := pwm_out (zero_pins h pins (s\<lparr>pwm_out := out\<rparr>))\<rparr>"
    by (rule Cons.IH)
  finally show ?case by (simp add: o)
qed

lemmas pins = PIN_PERISTALTIC_def PIN_AGITATOR_def PIN_AIR_PUMP_def PIN_FEED_PUMP_def PIN_ESTOP_def

lemma hw_sim_simps:
  "\<not> gpio_available hw_sim"
  by (simp_all add: hw_sim_def)

lemma hw_released_simps:
  "gpio_available hw_released" "chip_open_ok hw_released" "claim_input_ok hw_released"
  "tx_pwm_ok hw_released pin d" "gpio_read hw_released pin = Some 1"
  by (simp_all add: hw_released_def)

lemma hw_pressed_simps:
  "gpio_available hw_pressed" "chip_open_ok hw_pressed" "claim_input_ok hw_pressed"
  "tx_pwm_ok hw_pressed pin d" "gpio_read hw_pressed pin = Some 0"
  by (simp_all add: hw_pressed_def)

lemma init_fields:
  "pi_integral (init h a b c d e) = 0" "pi_last_error (init h a b c d e) = 0"
  "pump_mode (init h a b c d e) = ''manual''" "pump_duty (init h a b c d e) = 0"
  "motor_states (init h a b c d e) = [''agitator'' \<mapsto> 0, ''air'' \<mapsto> 0, ''feed'' \<mapsto> 0]"
  "estop_triggered (init h a b c d e) = False"
  by (simp_all add: init_def initialize_gpio_def Let_def split: prod.splits)

lemma init_sim:
  "init_default hw_sim =
     \<lparr>pi_kp = 1/2, pi_ki = 5/100, pi_setpoint = 120, max_pump_duty = 80,
      estop_enabled = True, pi_integral = 0, pi_last_error = 0, pump_mode = ''manual'',
      pump_duty = 0, motor_states = [''agitator'' \<mapsto> 0, ''air'' \<mapsto> 0, ''feed'' \<mapsto> 0],
      is_initialized = True, estop_triggered = False, pwm_out = Map.empty\<rparr>"
  by (simp add: init_default_def init_def initialize_gpio_def hw_sim_simps)

lemma init_released:
  "init_default hw_released =
     \<lparr>pi_kp = 1/2, pi_ki = 5/100, pi_setpoint = 120, max_pump_duty = 80,
      estop_enabled = True, pi_integral = 0, pi_last_error = 0, pump_mode = ''manual'',
      pump_duty = 0, motor_states = [''agitator'' \<mapsto> 0, ''air'' \<mapsto> 0, ''feed'' \<mapsto> 0],
      is_initialized = True, estop_triggered = False,
      pwm_out = [12 \<mapsto> 0, 13 \<mapsto> 0, 14 \<mapsto> 0, 15 \<mapsto> 0]\<rparr>"
  by (simp add: init_default_def init_def initialize_gpio_def hw_released_simps output_pins_def pins)

lemma busy_eq:
  "busy =
     \<lparr>pi_kp = 1/2, pi_ki = 5/100, pi_setpoint = 120, max_pump_duty = 80,
      estop_enabled = True, pi_integral = 20, pi_last_error = 20, pump_mode = ''auto'',
      pump_duty = 11, motor_states = [''agitator'' \<mapsto> 0, ''feed'' \<mapsto> 0, ''air'' \<mapsto> 75],
      is_initialized = True, estop_triggered = False,
      pwm_out = [13 \<mapsto> 0, 15 \<mapsto> 0, 14 \<mapsto> 75, 12 \<mapsto> 11]\<rparr>"
  by (simp add: busy_def init_released set_pump_speed_def manual_motor_control_def
      set_pump_mode_def pi_update_def set_pwm_def pin_map_def pins Let_def hw_released_simps)

lemma emergency_shutdown_eq:
  "emergency_shutdown h s =
     s\<lparr>pwm_out := pwm_out (zero_pins h output_pins s), pump_duty := 0,
       motor_states := (\<lambda>k. map_option (\<lambda>_. 0) (motor_states s k)), pi_integral := 0\<rparr>"
proof -
  obtain out where o: "zero_pins h output_pins s = s\<lparr>pwm_out := out\<rparr>"
    using zero_pins_frame by blast
  show ?thesis by (simp add: emergency_shutdown_def Let_def o)
qed

lemma set_pwm_zero_out:
  assumes "gpio_available h" and "is_initialized s"
  shows "pwm_out (snd (set_pwm h pin 0 s)) =
           (if tx_pwm_ok h pin 0 then (pwm_out s)(pin \<mapsto> 0) else pwm_out s)"
    and "is_initialized (snd (set_pwm h pin 0 s))"
  using assms by (simp_all add: set_pwm_def Let_def)

lemma zero_pins_out:
  assumes "gpio_available h" and "is_initialized s"
  shows "pwm_out (zero_pins h pins s) p =
           (if p \<in> set pins \<and> tx_pwm_ok h p 0 then Some 0 else pwm_out s p)"
  using assms(2)
proof (induction pins arbitrary: s)
  case Nil
  show ?case by simp
next
  case (Cons pin pins)
  have i: "is_initialized (snd (set_pwm h pin 0 s))"
    using set_pwm_zero_out(2) [OF assms(1) Cons.prems] .
  have "pwm_out (zero_pins h (pin # pins) s) p =
          (if p \<in> set pins \<and> tx_pwm_ok h p 0 then Some 0
           else pwm_out (snd (set_pwm h pin 0 s)) p)"
    using Cons.IH [OF i] by simp
  then show ?case
    by (simp add: set_pwm_zero_out(1) [OF assms(1) Cons.prems])
qed

lemma set_pwm_fields:
  "pump_duty (snd (set_pwm h pin d s)) = pump_duty s"
  "motor_states (snd (set_pwm h pin d s)) = motor_states s"
  "pi_integral (snd (set_pwm h pin d s)) = pi_integral s"
  "pi_last_error (snd (set_pwm h pin d s)) = pi_last_error s"
  "pump_mode (snd (set_pwm h pin d s)) = pump_mode s"
  "estop_triggered (snd (set_pwm h pin d s)) = estop_triggered s"
  "pi_kp (snd (set_pwm h pin d s)) = pi_kp s"
  "pi_ki (snd (set_pwm h pin d s)) = pi_ki s"
  "pi_setpoint (snd (set_pwm h pin d s)) = pi_setpoint s"
  "max_pump_duty (snd (set_pwm h pin d s)) = max_pump_duty s"
  by (simp_all add: set_pwm_def Let_def)

lemma pin_map_motors:
  "m \<in> {''agitator'', ''air'', ''feed''} \<Longrightarrow> \<exists>pin. pin_map m = Some pin"
  by (auto simp: pin_map_def)

lemma integral_ok_set_pump_speed: "integral_ok s \<Longrightarrow> integral_ok (snd (set_pump_speed h v s))"
  by (simp add: set_pump_speed_def integral_ok_def Let_def set_pwm_fields pi_update_def)

lemma integral_ok_set_pump_mode: "integral_ok s \<Longrightarrow> integral_ok (snd (set_pump_mode m s))"
  by (simp add: set_pump_mode_def integral_ok_def Let_def)

lemma integral_ok_set_pi_parameters:
  "integral_ok s \<Longrightarrow> integral_ok (snd (set_pi_parameters a b c s))"
  by (cases a; cases b; cases c) (simp_all add: set_pi_parameters_def integral_ok_def)

lemma integral_ok_emergency_shutdown: "integral_ok (emergency_shutdown h s)"
  by (simp add: emergency_shutdown_eq integral_ok_def)

lemma integral_ok_manual_motor_control:
  "integral_ok s \<Longrightarrow> integral_ok (snd (manual_motor_control h m v s))"
  by (simp add: manual_motor_control_def integral_ok_def Let_def set_pwm_fields split: option.splits)

lemma integral_ok_check_estop: "integral_ok s \<Longrightarrow> integral_ok (snd (check_estop h s))"
  by (simp add: check_estop_def Let_def integral_ok_emergency_shutdown split: option.splits)
    (simp add: integral_ok_def)

lemma integral_ok_stop_all: "integral_ok s \<Longrightarrow> integral_ok (stop_all h s)"
proof -
  obtain out where o: "zero_pins h output_pins s = s\<lparr>pwm_out := out\<rparr>"
    using zero_pins_frame by blast
  show "integral_ok s \<Longrightarrow> integral_ok (stop_all h s)"
    by (simp add: stop_all_def Let_def o integral_ok_def)
qed

lemma integral_ok_do_call: "integral_ok s \<Longrightarrow> integral_ok (do_call h c s)"
  by (cases c) (simp_all add: integral_ok_set_pump_speed integral_ok_set_pump_mode
      integral_ok_set_pi_parameters integral_ok_manual_motor_control integral_ok_check_estop
      integral_ok_stop_all)

lemma integral_ok_run: "integral_ok s \<Longrightarrow> integral_ok (run cs s)"
  by (induction cs arbitrary: s) (auto simp: integral_ok_do_call)

lemma integral_ok_init: "integral_ok (init h a b c d e)"
  by (simp add: integral_ok_def init_fields)

lemma auto_speed_clamps:
  "pump_mode s \<noteq> ''manual'' \<Longrightarrow> \<not> estop_triggered s \<Longrightarrow>
   pi_integral (snd (set_pump_speed h v s)) =
     max (- 50) (min 50 (pi_integral s + (pi_setpoint s - v)))"
  by (simp add: set_pump_speed_def Let_def set_pwm_fields pi_update_def)

lemma dom_zeroed: "dom (\<lambda>k. map_option (\<lambda>_. 0::real) (m k)) = dom m"
  by (auto simp: dom_def)

lemma has_motors_init: "has_motors (init h a b c d e)"
  by (auto simp add: has_motors_def init_fields)

lemma has_motors_do_call: "has_motors s \<Longrightarrow> has_motors (do_call h c s)"
proof (cases c)
  case (Set_pump_mode m)
  then show "has_motors s \<Longrightarrow> has_motors (do_call h c s)"
    by (simp add: has_motors_def set_pump_mode_def Let_def)
next
  case (Set_pump_speed v)
  then show "has_motors s \<Longrightarrow> has_motors (do_call h c s)"
    by (simp add: has_motors_def set_pump_speed_def Let_def set_pwm_fields pi_update_def)
next
  case (Set_pi_parameters x y z)
  then show "has_motors s \<Longrightarrow> has_motors (do_call h c s)"
    by (cases x; cases y; cases z) (simp_all add: has_motors_def set_pi_parameters_def)
next
  case (Manual_motor_control m v)
  then show "has_motors s \<Longrightarrow> has_motors (do_call h c s)"
    by (auto simp add: has_motors_def manual_motor_control_def Let_def set_pwm_fields
        split: option.splits)
next
  case Check_estop
  then show "has_motors s \<Longrightarrow> has_motors (do_call h c s)"
    by (simp add: has_motors_def check_estop_def Let_def emergency_shutdown_eq dom_zeroed
        split: option.splits)
next
  case Stop_all
  obtain out where o: "zero_pins h output_pins s = s\<lparr>pwm_out := out\<rparr>"
    using zero_pins_frame by blast
  from Stop_all show "has_motors s \<Longrightarrow> has_motors (do_call h c s)"
    by (simp add: has_motors_def stop_all_def Let_def o dom_zeroed)
qed

lemma has_motors_run: "has_motors s \<Longrightarrow> has_motors (run cs s)"
  by (induction cs arbitrary: s) (auto simp: has_motors_do_call)

lemma has_motors_reachable: "has_motors (run cs (init h a b c d e))"
  by (simp add: has_motors_run has_motors_init)

section \<open>Auxiliary facts about the vision processor\<close>

lemma mean_0022: "np_mean (map real_of_int [0, 0, 2, 2]) = 1"
  by (simp add: np_mean_def)

lemma std_0022: "np_std (map real_of_int [0, 0, 2, 2]) = 1"
  by (simp add: np_std_def np_mean_def)

lemma count_consistency_0022: "count_consistency [0, 0, 2, 2] = 1 / 2"
  using mean_0022 std_0022 by (simp add: count_consistency_def)

lemma sqrt_pi_gt1: "1 < sqrt pi"
  using pi_ge_two by (simp add: real_sqrt_gt_1_iff)

lemma analyze_two_squares:
  assumes "min_bubble_area v = 80" and "circularity_threshold v = 45 / 100"
  shows "analyze_loop v two_squares [] [] = ([2 * sqrt (100 / pi), 2 * sqrt (400 / pi)], [100, 400])"
proof -
  have "\<not> 4 * pi * 100 / (40 * 40) < 45 / 100" "\<not> 4 * pi * 400 / (80 * 80) < 45 / 100"
    using pi_ge_two by simp_all
  then show ?thesis
    using assms by (simp add: two_squares_def Let_def)
qed

lemma coverage_vga:
  "coverage_ratio (Some frame_vga) m =
     Some (case m of None \<Rightarrow> 0
           | Some px \<Rightarrow> real (length (filter (\<lambda>p. p \<noteq> 0) px)) / 307200)"
  by (simp add: coverage_ratio_def frame_vga_def Let_def split: option.splits)

lemma analyze_froth_history:
  "bubble_count_history (snd (analyze_froth v (Some frame_vga) bd)) =
     deque_append (history_size v) (bubble_count_history v) (count bd)"
  "min_bubble_area (snd (analyze_froth v (Some frame_vga) bd)) = min_bubble_area v"
  "circularity_threshold (snd (analyze_froth v (Some frame_vga) bd)) = circularity_threshold v"
  "history_size (snd (analyze_froth v (Some frame_vga) bd)) = history_size v"
  by (simp_all add: analyze_froth_def Let_def coverage_vga)

lemma frame_vga_size: "frame_size frame_vga \<noteq> 0"
  by (simp add: frame_size_def frame_vga_def)

lemma count_nothing: "count (process_bubbles v segment_nothing (Some frame_vga)) = 0"
  by (simp add: process_bubbles_def frame_vga_size segment_nothing_def analyze_contours_def Let_def)

lemma count_squares:
  "min_bubble_area v = 80 \<Longrightarrow> circularity_threshold v = 45 / 100 \<Longrightarrow>
   count (process_bubbles v segment_squares (Some frame_vga)) = 2"
  by (simp add: process_bubbles_def frame_vga_size segment_squares_def analyze_contours_def
      Let_def analyze_two_squares)

lemma see_fields:
  "bubble_count_history (see segment v) =
     deque_append (history_size v) (bubble_count_history v)
       (count (process_bubbles v segment (Some frame_vga)))"
  "min_bubble_area (see segment v) = min_bubble_area v"
  "circularity_threshold (see segment v) = circularity_threshold v"
  "history_size (see segment v) = history_size v"
  by (simp_all add: see_def analyze_froth_history)

lemma vision_default_fields:
  "min_bubble_area vision_default = 80" "circularity_threshold vision_default = 45 / 100"
  "history_size vision_default = 10" "bubble_count_history vision_default = []"
  by (simp_all add: vision_default_def vision_init_def)

lemma four_frames_history: "bubble_count_history four_frames = [0, 0, 2, 2]"
  by (simp add: four_frames_def see_fields vision_default_fields count_nothing count_squares
      deque_append_def)

lemma np_std_nonneg: "0 \<le> np_std xs"
proof -
  have "0 \<le> np_mean (map (\<lambda>x. \<bar>x - np_mean xs\<bar>\<^sup>2) xs)"
    unfolding np_mean_def [of "map (\<lambda>x. \<bar>x - np_mean xs\<bar>\<^sup>2) xs"]
    by (intro divide_nonneg_nonneg sum_list_nonneg) auto
  then show ?thesis by (simp add: np_std_def)
qed

lemma sqrt_100_pi: "sqrt (100 / pi) = 10 / sqrt pi"
proof -
  have "sqrt 100 = 10" by (rule real_sqrt_unique) simp_all
  then show ?thesis by (simp add: real_sqrt_divide)
qed

lemma sqrt_400_pi: "sqrt (400 / pi) = 20 / sqrt pi"
proof -
  have "sqrt 400 = 20" by (rule real_sqrt_unique) simp_all
  then show ?thesis by (simp add: real_sqrt_divide)
qed

lemma squares_data_eq:
  "squares_data =
     \<lparr>count = 2, diameters = [20 / sqrt pi, 40 / sqrt pi], areas = [100, 400],
      avg_diameter = 30 / sqrt pi, mask = Some (replicate 500 255 @ replicate 306700 0)\<rparr>"
proof -
  have "np_mean [20 / sqrt pi, 40 / sqrt pi] = 30 / sqrt pi"
    by (simp add: np_mean_def field_simps)
  then show ?thesis
    by (simp add: squares_data_def process_bubbles_def frame_vga_size segment_squares_def
      analyze_contours_def Let_def analyze_two_squares vision_default_fields
      sqrt_100_pi sqrt_400_pi)
qed

lemma std_squares: "np_std [20 / sqrt pi, 40 / sqrt pi] = 10 / sqrt pi"
proof -
  have m: "np_mean [20 / sqrt pi, 40 / sqrt pi] = 30 / sqrt pi"
    by (simp add: np_mean_def field_simps)
  have "np_mean (map (\<lambda>x. \<bar>x - 30 / sqrt pi\<bar>\<^sup>2) [20 / sqrt pi, 40 / sqrt pi]) = 100 / pi"
    by (simp add: np_mean_def power2_eq_square field_simps)
  then show ?thesis
    by (simp add: np_std_def m sqrt_100_pi)
qed

lemma squares_metrics_fields:
  "avg_bubble_size squares_metrics = 250"
  "size_std_dev squares_metrics = 10 / sqrt pi"
  "froth_stability squares_metrics = 127 / 250"
proof -
  have u: "size_uniformity (30 / sqrt pi) (10 / sqrt pi) = 3 / 4"
    using sqrt_pi_gt1 by (simp add: size_uniformity_def)
  have a: "np_mean [100, 400] = 250" by (simp add: np_mean_def)
  have c: "count_consistency [2] = 1 / 2" by (simp add: count_consistency_def)
  have d: "density_score 2 = 1 / 25" by (simp add: density_score_def)
  show "avg_bubble_size squares_metrics = 250"
    by (simp add: squares_metrics_def analyze_froth_def coverage_vga squares_data_eq Let_def a)
  show "size_std_dev squares_metrics = 10 / sqrt pi"
    by (simp add: squares_metrics_def analyze_froth_def coverage_vga squares_data_eq Let_def
        std_squares)
  show "froth_stability squares_metrics = 127 / 250"
    by (simp add: squares_metrics_def analyze_froth_def coverage_vga squares_data_eq Let_def
        std_squares calculate_stability_def vision_default_fields deque_append_def
        u c d np_clip_def)
qed

section \<open>The claims\<close>

text \<open>
  Claim C1. When \<open>check_estop\<close> gets past its guard and reads the E-Stop pin as 0, it
  reports the trigger, and the emergency shutdown leaves the pump duty and the duty of
  each of the three motors at 0 and the PI integral at 0, while \<open>pump_mode\<close> keeps the
  value it had before. On the hardware, each of the four output pins whose write
  returns is driven to duty 0; a pin whose write raises, and every other pin, keeps the
  duty last written to it. The three motor keys are those every reachable state has
  (\<open>has_motors_reachable\<close>).
\<close>

theorem check_estop_shutdown:
  assumes "estop_enabled s" and "gpio_available h" and "is_initialized s"
    and "gpio_read h PIN_ESTOP = Some 0" and "has_motors s"
  shows "fst (check_estop h s) \<and>
         estop_triggered (snd (check_estop h s)) \<and>
         pump_duty (snd (check_estop h s)) = 0 \<and>
         motor_states (snd (check_estop h s)) ''agitator'' = Some 0 \<and>
         motor_states (snd (check_estop h s)) ''air'' = Some 0 \<and>
         motor_states (snd (check_estop h s)) ''feed'' = Some 0 \<and>
         dom (motor_states (snd (check_estop h s))) = {''agitator'', ''air'', ''feed''} \<and>
         pi_integral (snd (check_estop h s)) = 0 \<and>
         pump_mode (snd (check_estop h s)) = pump_mode s \<and>
         (\<forall>pin \<in> set output_pins.
            tx_pwm_ok h pin 0 \<longrightarrow> pwm_out (snd (check_estop h s)) pin = Some 0) \<and>
         (\<forall>pin. pwm_out (snd (check_estop h s)) pin =
            (if pin \<in> {PIN_PERISTALTIC, PIN_AGITATOR, PIN_AIR_PUMP, PIN_FEED_PUMP} \<and>
                tx_pwm_ok h pin 0
             then Some 0 else pwm_out s pin))"
proof -
  have d: "dom (motor_states s) = {''agitator'', ''air'', ''feed''}"
    using assms(5) by (simp add: has_motors_def)
  then obtain a b c where m: "motor_states s ''agitator'' = Some a"
    "motor_states s ''air'' = Some b" "motor_states s ''feed'' = Some c"
    by (metis domD insertCI)
  have e: "check_estop h s = (True, emergency_shutdown h (s\<lparr>estop_triggered := True\<rparr>))"
    using assms(1-4) by (simp add: check_estop_def)
  have i: "is_initialized (s\<lparr>estop_triggered := True\<rparr>)"
    using assms(3) by simp
  have o: "pwm_out (snd (check_estop h s)) pin =
      (if pin \<in> set output_pins \<and> tx_pwm_ok h pin 0 then Some 0 else pwm_out s pin)" for pin
    by (simp add: e emergency_shutdown_eq zero_pins_out [OF assms(2) i])
  have s: "set output_pins = {PIN_PERISTALTIC, PIN_AGITATOR, PIN_AIR_PUMP, PIN_FEED_PUMP}"
    by (simp add: output_pins_def)
  have z: "dom (\<lambda>k. map_option (\<lambda>_. 0::real) (motor_states s k)) = dom (motor_states s)"
    by (rule dom_zeroed)
  have frame: "fst (check_estop h s) \<and>
         estop_triggered (snd (check_estop h s)) \<and>
         pump_duty (snd (check_estop h s)) = 0 \<and>
         motor_states (snd (check_estop h s)) ''agitator'' = Some 0 \<and>
         motor_states (snd (check_estop h s)) ''air'' = Some 0 \<and>
         motor_states (snd (check_estop h s)) ''feed'' = Some 0 \<and>
         dom (motor_states (snd (check_estop h s))) = {''agitator'', ''air'', ''feed''} \<and>
         pi_integral (snd (check_estop h s)) = 0 \<and>
         pump_mode (snd (check_estop h s)) = pump_mode s"
    using m d z by (simp add: e emergency_shutdown_eq)
  have hw1: "\<forall>pin \<in> set output_pins.
            tx_pwm_ok h pin 0 \<longrightarrow> pwm_out (snd (check_estop h s)) pin = Some 0"
    by (simp add: o)
  have hw2: "\<forall>pin. pwm_out (snd (check_estop h s)) pin =
            (if pin \<in> {PIN_PERISTALTIC, PIN_AGITATOR, PIN_AIR_PUMP, PIN_FEED_PUMP} \<and>
                tx_pwm_ok h pin 0
             then Some 0 else pwm_out s pin)"
    using o s by simp
  show ?thesis using frame hw1 hw2 by blast
qed

theorem check_estop_shutdown_witness:
  "estop_enabled busy \<and> gpio_available hw_pressed \<and> is_initialized busy \<and>
   gpio_read hw_pressed PIN_ESTOP = Some 0 \<and> has_motors busy \<and>
   pump_duty busy = 11 \<and> motor_states busy ''air'' = Some 75 \<and> pi_integral busy = 20 \<and>
   pump_mode busy = ''auto'' \<and>
   pwm_out busy PIN_PERISTALTIC = Some 11 \<and> pwm_out busy PIN_AIR_PUMP = Some 75 \<and>
   pump_duty (snd (check_estop hw_pressed busy)) = 0 \<and>
   motor_states (snd (check_estop hw_pressed busy)) ''air'' = Some 0 \<and>
   pi_integral (snd (check_estop hw_pressed busy)) = 0 \<and>
   pump_mode (snd (check_estop hw_pressed busy)) = ''auto'' \<and>
   pwm_out (snd (check_estop hw_pressed busy)) PIN_PERISTALTIC = Some 0 \<and>
   pwm_out (snd (check_estop hw_pressed busy)) PIN_AGITATOR = Some 0 \<and>
   pwm_out (snd (check_estop hw_pressed busy)) PIN_AIR_PUMP = Some 0 \<and>
   pwm_out (snd (check_estop hw_pressed busy)) PIN_FEED_PUMP = Some 0"
proof -
  have b: "estop_enabled busy" "is_initialized busy" "has_motors busy" "pump_duty busy = 11"
    "motor_states busy ''air'' = Some 75" "pi_integral busy = 20" "pump_mode busy = ''auto''"
    "pwm_out busy PIN_PERISTALTIC = Some 11" "pwm_out busy PIN_AIR_PUMP = Some 75"
    by (auto simp add: busy_eq has_motors_def pins)
  have h: "gpio_available hw_pressed" "gpio_read hw_pressed PIN_ESTOP = Some 0"
    "tx_pwm_ok hw_pressed PIN_PERISTALTIC 0" "tx_pwm_ok hw_pressed PIN_AGITATOR 0"
    "tx_pwm_ok hw_pressed PIN_AIR_PUMP 0" "tx_pwm_ok hw_pressed PIN_FEED_PUMP 0"
    by (simp_all add: hw_pressed_simps)
  show ?thesis
    using check_estop_shutdown [OF b(1) h(1) b(2) h(2) b(3)] b h by simp
qed

text \<open>
  Claim C2. From the initial state, after every finite sequence of calls (in particular
  of AUTO-mode \<open>set_pump_speed\<close> calls, whatever the measured values) the PI integral
  lies in [-50, 50]; an AUTO-mode \<open>set_pump_speed\<close> brings it into that range from any
  state, and \<open>set_pump_speed\<close>, \<open>set_pump_mode\<close>, \<open>set_pi_parameters\<close> and the emergency
  shutdown keep it there.
\<close>

theorem pi_integral_bounded:
  "integral_ok (run cs (init h0 a b c d e)) \<and>
   (pump_mode s = ''auto'' \<and> \<not> estop_triggered s \<longrightarrow>
      integral_ok (snd (set_pump_speed h v s))) \<and>
   (integral_ok s \<longrightarrow>
      integral_ok (snd (set_pump_speed h v s)) \<and>
      integral_ok (snd (set_pump_mode m s)) \<and>
      integral_ok (snd (set_pi_parameters kp ki sp s)) \<and>
      integral_ok (emergency_shutdown h s))"
proof -
  have "integral_ok (snd (set_pump_speed h v s))"
    if "pump_mode s = ''auto''" "\<not> estop_triggered s"
    using that by (simp add: integral_ok_def auto_speed_clamps)
  then show ?thesis
    by (simp add: integral_ok_run integral_ok_init integral_ok_set_pump_speed
        integral_ok_set_pump_mode integral_ok_set_pi_parameters integral_ok_emergency_shutdown)
qed

theorem pi_integral_bounded_witness:
  "pi_integral (run windup (init_default hw_sim)) = 50 \<and>
   integral_ok (run windup (init_default hw_sim)) \<and>
   pump_mode (run windup (init_default hw_sim)) = ''auto'' \<and>
   \<not> estop_triggered (run windup (init_default hw_sim)) \<and>
   integral_ok (snd (set_pump_speed hw_sim 1000 (run windup (init_default hw_sim)))) \<and>
   pi_integral (snd (set_pump_speed hw_sim 1000 (run windup (init_default hw_sim)))) = - 50"
proof -
  have w: "pi_integral (run windup (init_default hw_sim)) = 50"
    "pump_mode (run windup (init_default hw_sim)) = ''auto''"
    "\<not> estop_triggered (run windup (init_default hw_sim))"
    "pi_setpoint (run windup (init_default hw_sim)) = 120"
    by (simp_all add: windup_def init_sim set_pump_mode_def set_pump_speed_def pi_update_def
        set_pwm_def hw_sim_simps Let_def)
  have n: "pi_integral (snd (set_pump_speed hw_sim 1000 (run windup (init_default hw_sim)))) = - 50"
    using w by (simp add: auto_speed_clamps)
  show ?thesis
    using pi_integral_bounded [of windup hw_sim "1/2" "5/100" 120 80 True
        "run windup (init_default hw_sim)" hw_sim 1000 "''auto''" None None None] w n
    by (simp add: init_default_def)
qed



text \<open>
  Claim C4. \<open>set_pump_mode 'auto'\<close> in MANUAL mode sets the PI integral and the last
  error to 0; in AUTO mode it changes nothing; a mode string other than \<open>'auto'\<close> and
  \<open>'manual'\<close> raises \<open>ValueError\<close>.
\<close>

theorem set_pump_mode_reset:
  "(pump_mode s = ''manual'' \<longrightarrow>
      fst (set_pump_mode ''auto'' s) = Ok \<and>
      pump_mode (snd (set_pump_mode ''auto'' s)) = ''auto'' \<and>
      pi_integral (snd (set_pump_mode ''auto'' s)) = 0 \<and>
      pi_last_error (snd (set_pump_mode ''auto'' s)) = 0) \<and>
   (pump_mode s = ''auto'' \<longrightarrow> set_pump_mode ''auto'' s = (Ok, s)) \<and>
   (mode \<noteq> ''auto'' \<and> mode \<noteq> ''manual'' \<longrightarrow> set_pump_mode mode s = (Raised ValueError, s))"
  by (simp add: set_pump_mode_def Let_def)

theorem set_pump_mode_reset_witness:
  "pump_mode (init_default hw_sim) = ''manual'' \<and>
   pump_mode busy = ''auto'' \<and> pi_integral busy = 20 \<and> pi_last_error busy = 20 \<and>
   pi_integral (snd (set_pump_mode ''auto'' (snd (set_pump_mode ''manual'' busy)))) = 0 \<and>
   pi_last_error (snd (set_pump_mode ''auto'' (snd (set_pump_mode ''manual'' busy)))) = 0 \<and>
   set_pump_mode ''auto'' busy = (Ok, busy) \<and>
   set_pump_mode ''invalid_mode'' busy = (Raised ValueError, busy)"
proof -
  have b: "pump_mode busy = ''auto''" "pi_integral busy = 20" "pi_last_error busy = 20"
    by (simp_all add: busy_eq)
  have m: "pump_mode (snd (set_pump_mode ''manual'' busy)) = ''manual''"
    by (simp add: set_pump_mode_def Let_def)
  have i: "pump_mode (init_default hw_sim) = ''manual''"
    by (simp add: init_sim)
  show ?thesis
    using set_pump_mode_reset [of "snd (set_pump_mode ''manual'' busy)" "''invalid_mode''"]
      set_pump_mode_reset [of busy "''invalid_mode''"] b m i
    by simp
qed

text \<open>
  Claim C5, as the specification states it, takes the size-uniformity term to be
  \<open>1 / (1 + size_std_dev / avg_bubble_size)\<close> with \<open>avg_bubble_size\<close> the mean area.
  \<open>analyze_froth\<close> passes the mean diameter to \<open>_calculate_stability\<close> instead. For the
  two squares (areas 100 and 400) the mean area is 250, the term the code computes is
  3/4, the stated formula gives another value, and the stability score returned is the
  one built from 3/4.
\<close>

theorem size_uniformity_uses_diameter:
  "avg_bubble_size squares_metrics = 250 \<and>
   size_uniformity (avg_diameter squares_data) (size_std_dev squares_metrics) = 3 / 4 \<and>
   1 / (1 + size_std_dev squares_metrics / avg_bubble_size squares_metrics) \<noteq> 3 / 4 \<and>
   froth_stability squares_metrics = 4 / 10 * (3 / 4) + 4 / 10 * (1 / 2) + 2 / 10 * (2 / 50) \<and>
   froth_stability squares_metrics \<noteq>
     np_clip (4 / 10 * (1 / (1 + size_std_dev squares_metrics / avg_bubble_size squares_metrics))
              + 4 / 10 * (1 / 2) + 2 / 10 * (2 / 50)) 0 1"
proof -
  have u: "size_uniformity (30 / sqrt pi) (10 / sqrt pi) = 3 / 4"
    using sqrt_pi_gt1 by (simp add: size_uniformity_def)
  define x where "x = 10 / sqrt pi"
  define c where "c = 1 / (1 + x / 250)"
  have x: "0 < x" "x < 10" using sqrt_pi_gt1 by (simp_all add: x_def field_simps)
  then have "0 < 1 + x / 250" "3 * (1 + x / 250) < 4" "1 \<le> 1 + x / 250" by simp_all
  then have c: "3 / 4 < c" "c \<le> 1" by (simp_all add: c_def field_simps)
  then have "np_clip (4 / 10 * c + 4 / 10 * (1 / 2) + 2 / 10 * (2 / 50)) 0 1 =
      4 / 10 * c + 4 / 10 * (1 / 2) + 2 / 10 * (2 / 50)"
    by (simp add: np_clip_def)
  then have n: "c \<noteq> 3 / 4"
    "np_clip (4 / 10 * c + 4 / 10 * (1 / 2) + 2 / 10 * (2 / 50)) 0 1 \<noteq> 127 / 250"
    using c by simp_all
  show ?thesis
    using n u by (simp add: squares_metrics_fields squares_data_eq c_def x_def)
qed

text \<open>
  Claim C5, amended. For the bubble data \<open>process_bubbles\<close> hands to \<open>analyze_froth\<close>,
  the size-uniformity term inside the stability score is
  \<open>1 / (1 + size_std_dev / avg_diameter)\<close> when \<open>avg_diameter > 0\<close> and 0 otherwise,
  where \<open>avg_diameter\<close> is the arithmetic mean of the accepted diameters (0 if there are
  none) and \<open>size_std_dev\<close> is their population standard deviation (0 if there are none).
\<close>

theorem size_uniformity_term:
  assumes "segment f = Some (cs, m)" and "frame_size f \<noteq> 0" and "shape f = h # w # rest"
  shows
    "avg_diameter (process_bubbles v segment (Some f)) =
       (if diameters (process_bubbles v segment (Some f)) \<noteq> []
        then np_mean (diameters (process_bubbles v segment (Some f))) else 0) \<and>
     size_std_dev (fst (analyze_froth v (Some f) (process_bubbles v segment (Some f)))) =
       (if diameters (process_bubbles v segment (Some f)) \<noteq> []
        then np_std (diameters (process_bubbles v segment (Some f))) else 0) \<and>
     froth_stability (fst (analyze_froth v (Some f) (process_bubbles v segment (Some f)))) =
       np_clip
         (4 / 10 *
            (if avg_diameter (process_bubbles v segment (Some f)) > 0
             then 1 / (1 + size_std_dev (fst (analyze_froth v (Some f)
                              (process_bubbles v segment (Some f))))
                           / avg_diameter (process_bubbles v segment (Some f)))
             else 0)
          + 4 / 10 * count_consistency (bubble_count_history (snd (analyze_froth v (Some f)
                              (process_bubbles v segment (Some f)))))
          + 2 / 10 * density_score (count (process_bubbles v segment (Some f)))) 0 1"
proof -
  define bd where "bd = process_bubbles v segment (Some f)"
  have a: "avg_diameter bd = (if diameters bd \<noteq> [] then np_mean (diameters bd) else 0)"
    using assms(1,2)
    by (simp add: bd_def process_bubbles_def analyze_contours_def Let_def split: prod.splits)
  have "mask bd = Some m"
    using assms(1,2) by (simp add: bd_def process_bubbles_def Let_def)
  then obtain c where c: "coverage_ratio (Some f) (mask bd) = Some c"
    using assms(3) by (simp add: coverage_ratio_def Let_def)
  have s: "size_std_dev (fst (analyze_froth v (Some f) bd)) =
      (if diameters bd \<noteq> [] then np_std (diameters bd) else 0)"
    by (simp add: analyze_froth_def c Let_def)
  have t: "froth_stability (fst (analyze_froth v (Some f) bd)) =
      np_clip (4 / 10 * size_uniformity (avg_diameter bd)
                 (size_std_dev (fst (analyze_froth v (Some f) bd)))
        + 4 / 10 * count_consistency (bubble_count_history (snd (analyze_froth v (Some f) bd)))
        + 2 / 10 * density_score (count bd)) 0 1"
    by (simp add: analyze_froth_def c Let_def calculate_stability_def)
  show ?thesis
    unfolding bd_def [symmetric]
    using a s t by (simp add: size_uniformity_def)
qed

theorem size_uniformity_term_witness:
  "segment_squares frame_vga = Some (two_squares, replicate 500 255 @ replicate 306700 0) \<and>
   frame_size frame_vga \<noteq> 0 \<and> shape frame_vga = [480, 640, 3] \<and>
   avg_diameter squares_data = np_mean (diameters squares_data) \<and>
   avg_diameter squares_data = 30 / sqrt pi \<and>
   froth_stability squares_metrics = 127 / 250"
proof -
  have a: "segment_squares frame_vga = Some (two_squares, replicate 500 255 @ replicate 306700 0)"
    "shape frame_vga = [480, 640, 3]"
    by (simp_all add: segment_squares_def frame_vga_def)
  have d: "diameters squares_data \<noteq> []" "avg_diameter squares_data = 30 / sqrt pi"
    by (simp_all add: squares_data_eq)
  show ?thesis
    using size_uniformity_term [where segment = segment_squares and f = frame_vga
        and h = 480 and w = 640 and rest = "[3]" and v = vision_default,
        OF a(1) frame_vga_size a(2)] a d
      frame_vga_size squares_metrics_fields(3)
    by (simp add: squares_data_def [symmetric])
qed

text \<open>
  Claim C6, as the specification states it, says that a failing \<open>set_pi_parameters\<close>
  changes none of the stored values. With kp = 1 and ki = -1 the call raises, yet the
  stored kp has gone from 1/2 to 1.
\<close>

theorem set_pi_parameters_not_atomic:
  "fst (set_pi_parameters (Some 1) (Some (- 1)) None (init_default hw_sim)) = Raised ValueError \<and>
   pi_kp (init_default hw_sim) = 1 / 2 \<and>
   pi_kp (snd (set_pi_parameters (Some 1) (Some (- 1)) None (init_default hw_sim))) = 1"
  by (simp add: set_pi_parameters_def init_sim)

text \<open>
  Claim C6, amended. Whenever at least one supplied value is negative,
  \<open>set_pi_parameters\<close> raises \<open>ValueError\<close>; the setpoint, the integral and every other
  attribute keep their values, except that a non-negative kp is stored, and a
  non-negative ki is stored when kp was not the negative value. When kp is the negative
  value nothing changes at all.
\<close>

theorem set_pi_parameters_failure:
  assumes "(\<exists>k. kp = Some k \<and> k < 0) \<or> (\<exists>k. ki = Some k \<and> k < 0) \<or>
           (\<exists>p. setpoint = Some p \<and> p < 0)"
  shows "fst (set_pi_parameters kp ki setpoint s) = Raised ValueError \<and>
         snd (set_pi_parameters kp ki setpoint s) =
           s\<lparr>pi_kp := (case kp of None \<Rightarrow> pi_kp s
                         | Some k \<Rightarrow> if 0 \<le> k then k else pi_kp s),
             pi_ki := (case ki of None \<Rightarrow> pi_ki s
                         | Some k \<Rightarrow> if 0 \<le> k \<and> \<not> (\<exists>k'. kp = Some k' \<and> k' < 0) then k
                                     else pi_ki s)\<rparr> \<and>
         pi_setpoint (snd (set_pi_parameters kp ki setpoint s)) = pi_setpoint s \<and>
         pi_integral (snd (set_pi_parameters kp ki setpoint s)) = pi_integral s \<and>
         ((\<exists>k. kp = Some k \<and> k < 0) \<longrightarrow> snd (set_pi_parameters kp ki setpoint s) = s)"
  using assms
  by (cases kp; cases ki; cases setpoint) (auto simp add: set_pi_parameters_def)

theorem set_pi_parameters_failure_witness:
  "set_pi_parameters (Some (- 1)) (Some 2) (Some 3) busy = (Raised ValueError, busy) \<and>
   set_pi_parameters (Some 1) (Some 2) (Some (- 3)) busy =
     (Raised ValueError, busy\<lparr>pi_kp := 1, pi_ki := 2\<rparr>) \<and>
   pi_integral busy = 20 \<and> pi_setpoint busy = 120"
proof -
  have b: "pi_integral busy = 20" "pi_setpoint busy = 120"
    by (simp_all add: busy_eq)
  have "set_pi_parameters (Some (- 1)) (Some 2) (Some 3) busy = (Raised ValueError, busy)"
    using set_pi_parameters_failure [of "Some (- 1)" "Some 2" "Some 3" busy]
    by (simp add: prod_eq_iff)
  moreover have "set_pi_parameters (Some 1) (Some 2) (Some (- 3)) busy =
     (Raised ValueError, busy\<lparr>pi_kp := 1, pi_ki := 2\<rparr>)"
    using set_pi_parameters_failure [of "Some 1" "Some 2" "Some (- 3)" busy]
    by (simp add: prod_eq_iff)
  ultimately show ?thesis using b by simp
qed

text \<open>
  Claim C7, as the specification states it, says that a history of three or more counts
  never gives 0.5. After two frames without bubbles and two frames with two bubbles the
  history is [0, 0, 2, 2], of mean 1 and standard deviation 1, and the term is 0.5.
\<close>

theorem count_consistency_half_with_history:
  "3 \<le> length (bubble_count_history four_frames) \<and>
   count_consistency (bubble_count_history four_frames) = 1 / 2"
  by (simp add: four_frames_history count_consistency_0022)

text \<open>
  Claim C7, amended. The count-consistency term is 0.5 for every history shorter than
  three entries. For a history of three or more entries it is
  \<open>1 / (1 + std / mean)\<close> when the mean is positive and 0 otherwise, so it equals 0.5
  there exactly when the mean is positive and the standard deviation equals it.
\<close>

theorem count_consistency_sentinel:
  "(length h < 3 \<longrightarrow> count_consistency h = 1 / 2) \<and>
   (3 \<le> length h \<longrightarrow>
      count_consistency h =
        (if np_mean (map real_of_int h) > 0
         then 1 / (1 + np_std (map real_of_int h) / np_mean (map real_of_int h)) else 0) \<and>
      (count_consistency h = 1 / 2 \<longleftrightarrow>
         np_mean (map real_of_int h) > 0 \<and>
         np_std (map real_of_int h) = np_mean (map real_of_int h)))"
proof -
  define m where "m = np_mean (map real_of_int h)"
  define s where "s = np_std (map real_of_int h)"
  have s0: "0 \<le> s" by (simp add: s_def np_std_nonneg)
  have "(1 / (1 + s / m) = 1 / 2) = (s = m)" if "0 < m"
  proof -
    have p: "0 < 1 + s / m" using s0 that by (simp add: add_pos_nonneg)
    have "(1 / (1 + s / m) = 1 / 2) = (1 + s / m = 2)"
      using p by (simp add: field_simps)
    also have "\<dots> = (s = m)" using that by (simp add: field_simps)
    finally show ?thesis .
  qed
  then show ?thesis
    by (auto simp add: count_consistency_def Let_def m_def [symmetric] s_def [symmetric])
qed

theorem count_consistency_sentinel_witness:
  "length [7::int, 9] < 3 \<and> count_consistency [7, 9] = 1 / 2 \<and>
   3 \<le> length [0::int, 0, 2, 2] \<and> count_consistency [0, 0, 2, 2] = 1 / 2 \<and>
   3 \<le> length [5::int, 5, 5] \<and> count_consistency [5, 5, 5] = 1"
proof -
  have a: "np_mean (map real_of_int [5, 5, 5]) = 5" "np_std (map real_of_int [5, 5, 5]) = 0"
    by (simp_all add: np_std_def np_mean_def)
  show ?thesis
    using count_consistency_sentinel [of "[7, 9]"] count_consistency_sentinel [of "[0, 0, 2, 2]"]
      count_consistency_sentinel [of "[5, 5, 5]"] mean_0022 std_0022 a
    by simp
qed

text \<open>
  Claim C8. With the interlock not triggered, \<open>manual_motor_control\<close> with a known motor
  and a duty in [0, 100] (such as \<open>'air'\<close> and 75) stores the duty, which \<open>get_status\<close> reads back;
  a following call for that motor with a duty outside [0, 100] (such as 150) raises
  \<open>ValueError\<close> and the stored duty stays; a motor id outside agitator, air, feed raises
  \<open>ValueError\<close> and leaves the state as it was.
\<close>

theorem motor_control_readback:
  assumes "\<not> estop_triggered s" and "has_motors s"
  shows "(m \<in> {''agitator'', ''air'', ''feed''} \<and> 0 \<le> v \<and> v \<le> 100 \<longrightarrow>
            fst (manual_motor_control h m v s) = Ok \<and>
            status_motors (get_status (snd (manual_motor_control h m v s))) m = Some v \<and>
            (\<not> (0 \<le> w \<and> w \<le> 100) \<longrightarrow>
               manual_motor_control h' m w (snd (manual_motor_control h m v s)) =
                 (Raised ValueError, snd (manual_motor_control h m v s)) \<and>
               status_motors (get_status (snd (manual_motor_control h' m w
                 (snd (manual_motor_control h m v s))))) m = Some v)) \<and>
         (m \<notin> {''agitator'', ''air'', ''feed''} \<longrightarrow>
            manual_motor_control h m v s = (Raised ValueError, s))"
proof -
  have d: "dom (motor_states s) = {''agitator'', ''air'', ''feed''}"
    using assms(2) by (simp add: has_motors_def)
  have unknown: "manual_motor_control h m v s = (Raised ValueError, s)"
    if "m \<notin> {''agitator'', ''air'', ''feed''}"
  proof -
    have "motor_states s m = None" using that d by blast
    then show ?thesis using assms(1) by (simp add: manual_motor_control_def)
  qed
  have known: "fst (manual_motor_control h m v s) = Ok \<and>
      status_motors (get_status (snd (manual_motor_control h m v s))) m = Some v \<and>
      (\<not> (0 \<le> w \<and> w \<le> 100) \<longrightarrow>
         manual_motor_control h' m w (snd (manual_motor_control h m v s)) =
           (Raised ValueError, snd (manual_motor_control h m v s)) \<and>
         status_motors (get_status (snd (manual_motor_control h' m w
           (snd (manual_motor_control h m v s))))) m = Some v)"
    if k: "m \<in> {''agitator'', ''air'', ''feed''}" and r: "0 \<le> v" "v \<le> 100"
  proof -
    obtain pin where p: "pin_map m = Some pin" using pin_map_motors [OF k] by blast
    have "m \<in> dom (motor_states s)" using k d by simp
    then have n: "motor_states s m \<noteq> None" by blast
    define s1 where "s1 = s\<lparr>motor_states := (motor_states s)(m \<mapsto> v)\<rparr>"
    have e: "manual_motor_control h m v s = (Ok, snd (set_pwm h pin v s1))"
      using assms(1) n r p by (simp add: manual_motor_control_def s1_def)
    have f: "motor_states (snd (set_pwm h pin v s1)) m = Some v"
      "\<not> estop_triggered (snd (set_pwm h pin v s1))"
      using assms(1) by (simp_all add: set_pwm_fields s1_def)
    have g: "manual_motor_control h' m w (snd (set_pwm h pin v s1)) =
        (Raised ValueError, snd (set_pwm h pin v s1))" if "\<not> (0 \<le> w \<and> w \<le> 100)"
      using that f by (simp add: manual_motor_control_def)
    show ?thesis using f g by (simp add: e get_status_def)
  qed
  show ?thesis using known unknown by blast
qed

theorem motor_control_readback_witness:
  "\<not> estop_triggered (init_default hw_sim) \<and> has_motors (init_default hw_sim) \<and>
   status_motors (get_status (snd (manual_motor_control hw_sim ''air'' 75 (init_default hw_sim)))) ''air''
     = Some 75 \<and>
   fst (manual_motor_control hw_sim ''air'' 150
     (snd (manual_motor_control hw_sim ''air'' 75 (init_default hw_sim)))) = Raised ValueError \<and>
   status_motors (get_status (snd (manual_motor_control hw_sim ''air'' 150
     (snd (manual_motor_control hw_sim ''air'' 75 (init_default hw_sim)))))) ''air'' = Some 75 \<and>
   manual_motor_control hw_sim ''invalid_motor'' 50 (init_default hw_sim) =
     (Raised ValueError, init_default hw_sim)"
proof -
  have a: "\<not> estop_triggered (init_default hw_sim)" "has_motors (init_default hw_sim)"
    by (auto simp add: init_sim has_motors_def)
  show ?thesis
    using motor_control_readback [OF a, of "''air''" 75 hw_sim 150 hw_sim]
      motor_control_readback [OF a, of "''invalid_motor''" 50 hw_sim 150 hw_sim] a
    by simp
qed

text \<open>
  Claim C9. \<open>process_bubbles\<close> on a frame that is \<open>None\<close> or has size 0 returns the
  empty result: count 0, no diameters, no areas, average diameter 0, no mask. The
  segmentation is not consulted, so nothing can raise.
\<close>

theorem process_bubbles_empty_frame:
  "process_bubbles v segment None = empty_result \<and>
   (frame_size f = 0 \<longrightarrow> process_bubbles v segment (Some f) = empty_result) \<and>
   count empty_result = 0 \<and> diameters empty_result = [] \<and> areas empty_result = [] \<and>
   avg_diameter empty_result = 0 \<and> mask empty_result = None"
  by (simp add: process_bubbles_def empty_result_def)

theorem process_bubbles_empty_frame_witness:
  "frame_size frame_empty = 0 \<and>
   process_bubbles vision_default segment_squares (Some frame_empty) = empty_result \<and>
   process_bubbles vision_default segment_squares None = empty_result"
proof -
  have z: "frame_size frame_empty = 0"
    by (simp add: frame_size_def frame_empty_def)
  show ?thesis
    using process_bubbles_empty_frame [of vision_default segment_squares frame_empty] z by simp
qed

text \<open>
  Claim C10. While the interlock is triggered, \<open>set_pump_speed\<close> and
  \<open>manual_motor_control\<close> return normally for every argument, out-of-range duties and
  unknown motor ids included, and leave the state as it was.
\<close>

theorem estop_vetoes_actuation:
  assumes "estop_triggered s"
  shows "set_pump_speed h v s = (Ok, s) \<and> manual_motor_control h motor_id pwm_value s = (Ok, s)"
  using assms by (simp add: set_pump_speed_def manual_motor_control_def)

theorem estop_vetoes_actuation_witness:
  "estop_triggered stopped \<and>
   set_pump_speed hw_released 150 stopped = (Ok, stopped) \<and>
   manual_motor_control hw_released ''invalid_motor'' 150 stopped = (Ok, stopped)"
proof -
  have b: "estop_enabled busy" "is_initialized busy"
    by (simp_all add: busy_eq)
  have t: "estop_triggered stopped"
    using b by (simp add: stopped_def check_estop_def hw_pressed_simps emergency_shutdown_eq Let_def)
  show ?thesis
    using estop_vetoes_actuation [OF t, of hw_released 150 "''invalid_motor''" 150] t by simp
qed

end
